theory Spec2Isabelle
  imports Complex_Main
begin

section \<open>Values of the Python program\<close>

text \<open>
  The development embeds \<^verbatim>\<open>src/pyBL/ibl_base.py\<close>. Python floats are modelled as
  \<^typ>\<open>real\<close> (rounding is not modelled; the properties below are about control flow,
  raised errors and division by zero). A raised exception is the \<open>Inl\<close> branch of a sum.
  \<open>TypeError\<close> and \<open>IndexError\<close> are not subclasses of Python's \<open>ValueError\<close>.
\<close>

datatype error = ValueError string | TypeError | IndexError

fun is_ValueError :: "error + 'a \<Rightarrow> bool" where
  "is_ValueError (Inl (ValueError m)) = True"
| "is_ValueError (Inl TypeError) = False"
| "is_ValueError (Inl IndexError) = False"
| "is_ValueError (Inr v) = False"

text \<open>
  What \<^verbatim>\<open>np.asarray\<close> returns, by number of dimensions: a 0-dimensional array (a
  scalar), a vector, a matrix. \<open>shape0\<close> is \<^verbatim>\<open>a.shape[0]\<close>, which raises
  \<open>IndexError\<close> on the empty shape tuple of a scalar.
\<close>

datatype arr = A0 real | A1 "real list" | A2 "real list list"

fun ndim :: "arr \<Rightarrow> nat" where
  "ndim (A0 v) = 0"
| "ndim (A1 vs) = 1"
| "ndim (A2 rows) = 2"

fun shape0 :: "arr \<Rightarrow> error + nat" where
  "shape0 (A0 v) = Inl IndexError"
| "shape0 (A1 vs) = Inr (length vs)"
| "shape0 (A2 rows) = Inr (length rows)"

text \<open>
  A callable of one station, with its optional \<^verbatim>\<open>derivative\<close> method (the capability
  the code probes with \<^verbatim>\<open>hasattr\<close>); \<open>derivative f = Some d\<close> gives \<open>d k\<close> for
  \<^verbatim>\<open>f.derivative(k)\<close>, and \<^verbatim>\<open>f.derivative()\<close> is \<open>d 1\<close>.
\<close>

datatype vfun = VFun (call: "real \<Rightarrow> real") (derivative: "(nat \<Rightarrow> vfun) option")

text \<open>
  The objects \<^verbatim>\<open>set_velocity\<close> can be handed: a callable, a sized sequence of
  array-likes, or an object that is neither callable nor sized (a plain number).
\<close>

datatype pyobj = Callable vfun | Sequence "arr list" | Number real

fun callable :: "pyobj \<Rightarrow> bool" where
  "callable (Callable f) = True"
| "callable (Sequence s) = False"
| "callable (Number v) = False"

section \<open>Termination events and the integrator's state\<close>

text \<open>\<^verbatim>\<open>IBLTermEventBase\<close>: the \<^verbatim>\<open>terminal\<close> flag, \<^verbatim>\<open>_call_impl\<close> and \<^verbatim>\<open>event_info\<close>.\<close>

record IBLTermEventBase =
  terminal :: bool
  call_impl :: "real \<Rightarrow> real list \<Rightarrow> real"
  event_info :: "int \<times> string"

record IBLBase =
  self_U_e :: "pyobj option"
  self_dU_edx :: "pyobj option"
  self_d2U_edx2 :: "pyobj option"
  self_kill_events :: "IBLTermEventBase list option"
  self_F :: "(real \<Rightarrow> real list) option"
  self_solution :: "(real \<Rightarrow> real list) option"

section \<open>Setting the edge velocity\<close>

text \<open>
  The branch \<^verbatim>\<open>if callable(U_e):\<close> of \<^verbatim>\<open>set_velocity\<close>. \<open>fd\<close> is
  \<^verbatim>\<open>scipy.misc.derivative(func, x0, dx, n, order)\<close>, a parameter. The second
  \<^verbatim>\<open>if not callable(dU_edx)\<close> of the source (in the branch where both derivatives are
  given) repeats the first and can never fire; \<^verbatim>\<open>d2U_edx2\<close> is stored unchecked.
\<close>

definition set_velocity_callable ::
  "((real \<Rightarrow> real) \<Rightarrow> real \<Rightarrow> real \<Rightarrow> nat \<Rightarrow> nat \<Rightarrow> real) \<Rightarrow> IBLBase \<Rightarrow> vfun \<Rightarrow>
   pyobj option \<Rightarrow> pyobj option \<Rightarrow> error + IBLBase" where
  "set_velocity_callable fd self U_e dU_edx d2U_edx2 =
    (let self1 = self\<lparr>self_U_e := Some (Callable U_e)\<rparr> in
     case dU_edx of
       None \<Rightarrow>
         (if d2U_edx2 \<noteq> None
          then Inl (ValueError ''Can only pass second derivative if first derivative was specified'')
          else (case derivative U_e of
                  Some d \<Rightarrow>
                    Inr (self1\<lparr>self_dU_edx := Some (Callable (d 1)),
                               self_d2U_edx2 := Some (Callable (d 2))\<rparr>)
                | None \<Rightarrow>
                    Inr (self1\<lparr>self_dU_edx :=
                                 Some (Callable (VFun (\<lambda>x. fd (call U_e) x (1 / 10 ^ 4) 1 3) None)),
                               self_d2U_edx2 :=
                                 Some (Callable (VFun (\<lambda>x. fd (call U_e) x (1 / 10 ^ 4) 2 3) None))\<rparr>)))
     | Some d1 \<Rightarrow>
         (case d1 of
            Callable f1 \<Rightarrow>
              (let self2 = self1\<lparr>self_dU_edx := Some d1\<rparr> in
               case d2U_edx2 of
                 None \<Rightarrow>
                   (case derivative f1 of
                      Some d \<Rightarrow> Inr (self2\<lparr>self_d2U_edx2 := Some (Callable (d 1))\<rparr>)
                    | None \<Rightarrow>
                        Inr (self2\<lparr>self_d2U_edx2 :=
                               Some (Callable (VFun (\<lambda>x. fd (call f1) x (1 / 10 ^ 5) 1 3) None))\<rparr>))
               | Some d2 \<Rightarrow> Inr (self2\<lparr>self_d2U_edx2 := Some d2\<rparr>))
          | Sequence s \<Rightarrow>
              Inl (ValueError ''Must pass in callable object for first derivative if callable U_e given'')
          | Number v \<Rightarrow>
              Inl (ValueError ''Must pass in callable object for first derivative if callable U_e given'')))"

text \<open>
  The \<^verbatim>\<open>else\<close> branch for a 2-tuple: the checks in the source's order. \<^verbatim>\<open>npts =
  x_pts.shape[0]\<close> is computed before the dimension checks. \<open>CubicSpline\<close> is
  \<^verbatim>\<open>scipy.interpolate.CubicSpline\<close>, a parameter that may raise; the recursive call
  \<^verbatim>\<open>self.set_velocity(U_e_spline)\<close> passes no derivative arguments.
\<close>

definition set_velocity_pair ::
  "(real list \<Rightarrow> real list \<Rightarrow> error + vfun) \<Rightarrow>
   ((real \<Rightarrow> real) \<Rightarrow> real \<Rightarrow> real \<Rightarrow> nat \<Rightarrow> nat \<Rightarrow> real) \<Rightarrow> IBLBase \<Rightarrow> arr \<Rightarrow> arr \<Rightarrow>
   error + IBLBase" where
  "set_velocity_pair CubicSpline fd self x_pts U_e_pts =
    (case shape0 x_pts of
       Inl e \<Rightarrow> Inl e
     | Inr npts \<Rightarrow>
        (case x_pts of
           A1 xs \<Rightarrow>
             (case U_e_pts of
                A1 us \<Rightarrow>
                  (if npts \<noteq> length us
                   then Inl (ValueError ''Vectors in U_e 2-tuple must be of same length'')
                   else if npts < 2
                   then Inl (ValueError ''Must pass at least two points for edge velocity'')
                   else (case CubicSpline xs us of
                           Inl e \<Rightarrow> Inl e
                         | Inr U_e_spline \<Rightarrow> set_velocity_callable fd self U_e_spline None None))
              | A0 v \<Rightarrow>
                  Inl (ValueError ''Second element of U_e 2-tuple must be 1D vector of Velocities'')
              | A2 rows \<Rightarrow>
                  Inl (ValueError ''Second element of U_e 2-tuple must be 1D vector of Velocities''))
         | A0 v \<Rightarrow>
             Inl (ValueError ''First element of U_e 2-tuple must be 1D vector of distances'')
         | A2 rows \<Rightarrow>
             Inl (ValueError ''First element of U_e 2-tuple must be 1D vector of distances'')))"

text \<open>
  \<^verbatim>\<open>set_velocity\<close>. \<^verbatim>\<open>len(U_e)\<close> raises \<open>TypeError\<close> on an object without a
  length. The last message is a format template; the placeholder stands for the
  printed argument.
\<close>

definition set_velocity ::
  "(real list \<Rightarrow> real list \<Rightarrow> error + vfun) \<Rightarrow>
   ((real \<Rightarrow> real) \<Rightarrow> real \<Rightarrow> real \<Rightarrow> nat \<Rightarrow> nat \<Rightarrow> real) \<Rightarrow> IBLBase \<Rightarrow> pyobj \<Rightarrow>
   pyobj option \<Rightarrow> pyobj option \<Rightarrow> error + IBLBase" where
  "set_velocity CubicSpline fd self U_e dU_edx d2U_edx2 =
    (case U_e of
       Callable f \<Rightarrow> set_velocity_callable fd self f dU_edx d2U_edx2
     | Number v \<Rightarrow> Inl TypeError
     | Sequence s \<Rightarrow>
         (if length s = 2
          then set_velocity_pair CubicSpline fd self (s ! 0) (s ! 1)
          else Inl (ValueError ''Don't know how to use {} to initialize velocity'')))"

text \<open>The object before \<^verbatim>\<open>__init__\<close> has run: no attribute is set.\<close>

definition new_IBLBase :: IBLBase where
  "new_IBLBase = \<lparr>self_U_e = None, self_dU_edx = None, self_d2U_edx2 = None,
     self_kill_events = None, self_F = None, self_solution = None\<rparr>"

text \<open>\<^verbatim>\<open>IBLBase.__init__\<close>.\<close>

definition IBLBase_init ::
  "(real list \<Rightarrow> real list \<Rightarrow> error + vfun) \<Rightarrow>
   ((real \<Rightarrow> real) \<Rightarrow> real \<Rightarrow> real \<Rightarrow> nat \<Rightarrow> nat \<Rightarrow> real) \<Rightarrow>
   pyobj option \<Rightarrow> pyobj option \<Rightarrow> pyobj option \<Rightarrow> error + IBLBase" where
  "IBLBase_init CubicSpline fd U_e dU_edx d2U_edx2 =
    (case U_e of
       None \<Rightarrow>
         (if dU_edx \<noteq> None then Inl (ValueError ''Must specify U_e if specifying dU_edx'')
          else if d2U_edx2 \<noteq> None then Inl (ValueError ''Must specify U_e if specifying d2U_edx2'')
          else Inr (new_IBLBase\<lparr>self_U_e := None, self_dU_edx := None, self_d2U_edx2 := None,
                      self_kill_events := None, self_F := None\<rparr>))
     | Some u \<Rightarrow>
         (case set_velocity CubicSpline fd new_IBLBase u dU_edx d2U_edx2 of
            Inl e \<Rightarrow> Inl e
          | Inr self1 \<Rightarrow> Inr (self1\<lparr>self_kill_events := None, self_F := None\<rparr>)))"

section \<open>Solving\<close>

definition TERMINATION_MESSAGES :: "int \<Rightarrow> string option" where
  "TERMINATION_MESSAGES =
     map_of [(0, ''Completed''), (- 1, ''Separated''), (1, ''Transition''), (- 99, ''Unknown Event'')]"

text \<open>
  The Python value bound to \<^verbatim>\<open>y0\<close> and stored in \<^verbatim>\<open>F_end\<close>: an ndarray, or the list
  \<^verbatim>\<open>[y0i]\<close> that \<^verbatim>\<open>solve\<close> builds around a 0-dimensional \<^verbatim>\<open>y0i\<close>. \<open>np_asarray\<close>
  is \<^verbatim>\<open>np.asarray\<close> on such a value.
\<close>

datatype pyval = NdArray arr | PyList "real list"

fun np_asarray :: "pyval \<Rightarrow> arr" where
  "np_asarray (NdArray a) = a"
| "np_asarray (PyList vs) = A1 vs"

text \<open>\<^verbatim>\<open>IBLResult\<close>. \<open>message\<close> is \<open>None\<close> when the final lookup in
  \<^verbatim>\<open>TERMINATION_MESSAGES\<close> finds no entry for the status.\<close>

record IBLResult =
  x_end :: real
  F_end :: pyval
  status :: int
  message :: "string option"
  success :: bool

text \<open>
  The fields of the object returned by \<^verbatim>\<open>scipy.integrate.solve_ivp\<close> that
  \<^verbatim>\<open>solve\<close> reads: \<^verbatim>\<open>message\<close>, \<^verbatim>\<open>success\<close>, \<^verbatim>\<open>status\<close>, \<^verbatim>\<open>t\<close>,
  \<^verbatim>\<open>t_events\<close> (\<open>None\<close> when no events were passed) and the dense output \<^verbatim>\<open>sol\<close>.
\<close>

record OdeResult =
  ode_message :: string
  ode_success :: bool
  ode_status :: int
  ode_t :: "real list"
  ode_t_events :: "real list list option"
  ode_sol :: "real \<Rightarrow> real list"

text \<open>The \<^verbatim>\<open>term_event\<close> argument: \<^verbatim>\<open>None\<close>, a list of events, or one event.\<close>

datatype term_event_arg =
  NoTermEvent | TermEventList "IBLTermEventBase list" | TermEvent IBLTermEventBase

text \<open>The list handed to the solver as \<^verbatim>\<open>events\<close>: the internal events first, then the
  extra ones; \<^verbatim>\<open>None\<close> when there are neither.\<close>

definition kill_events_for :: "IBLBase \<Rightarrow> term_event_arg \<Rightarrow> IBLTermEventBase list option" where
  "kill_events_for self term_event =
    (let kill_events = (case self_kill_events self of None \<Rightarrow> [] | Some ks \<Rightarrow> [] @ ks) in
     case term_event of
       NoTermEvent \<Rightarrow> (if self_kill_events self = None then None else Some kill_events)
     | TermEventList es \<Rightarrow> Some (kill_events @ es)
     | TermEvent e \<Rightarrow> Some (kill_events @ [e]))"

text \<open>The loop \<^verbatim>\<open>for i, xe in enumerate(rtn.t_events)\<close>: the first index whose array of
  recorded stations is not empty, with \<^verbatim>\<open>xe[0]\<close>.\<close>

fun first_event :: "nat \<Rightarrow> real list list \<Rightarrow> (nat \<times> real) option" where
  "first_event i [] = None"
| "first_event i ([] # xes) = first_event (Suc i) xes"
| "first_event i ((x # xs) # xes) = Some (i, x)"

text \<open>How \<^verbatim>\<open>str.format\<close> prints the looked-up message.\<close>

fun py_str :: "string option \<Rightarrow> string" where
  "py_str None = ''None''"
| "py_str (Some s) = s"

text \<open>
  The part of \<^verbatim>\<open>solve\<close> after the solver has returned (\<^verbatim>\<open># if completed gather
  info\<close>). The first \<^verbatim>\<open>case\<close> computes \<^verbatim>\<open>x_end, F_end, status, message\<close>; the
  result record is built from them. \<^verbatim>\<open>rtn.t[-1]\<close> raises on an empty array,
  iterating \<^verbatim>\<open>None\<close> and subscripting \<^verbatim>\<open>None\<close> raise \<open>TypeError\<close>, and
  \<^verbatim>\<open>kill_events[i]\<close> raises past the end of the list.
\<close>

definition gather_info ::
  "real \<times> real \<Rightarrow> pyval \<Rightarrow> IBLTermEventBase list option \<Rightarrow> OdeResult \<Rightarrow> error + IBLResult" where
  "gather_info xrange y0 kill_events rtn =
    (case
       (if ode_success rtn then
          (if ode_status rtn = 0 then
             (if ode_t rtn = [] then Inl IndexError
              else Inr (last (ode_t rtn), NdArray (A1 (ode_sol rtn (last (ode_t rtn)))), 0, []))
           else if ode_status rtn = 1 then
             (case ode_t_events rtn of
                None \<Rightarrow> Inl TypeError
              | Some t_events \<Rightarrow>
                  (case first_event 0 t_events of
                     None \<Rightarrow> Inr (fst xrange, y0, - 99, ''Event not found.'')
                   | Some (i, xe0) \<Rightarrow>
                       (case kill_events of
                          None \<Rightarrow> Inl TypeError
                        | Some kes \<Rightarrow>
                            (if i < length kes
                             then Inr (xe0, NdArray (A1 (ode_sol rtn xe0)),
                                       fst (event_info (kes ! i)), snd (event_info (kes ! i)))
                             else Inl IndexError))))
           else Inr (fst xrange, y0, - 99, ode_message rtn))
        else Inr (fst xrange, y0, - 99, ode_message rtn))
     of
       Inl e \<Rightarrow> Inl e
     | Inr (xe, Fe, st, msg) \<Rightarrow>
         Inr \<lparr>x_end = xe, F_end = Fe, status = st,
              message = (if length msg > 0
                         then Some (py_str (TERMINATION_MESSAGES st) @ '': '' @ msg)
                         else TERMINATION_MESSAGES st),
              success = ode_success rtn\<rparr>)"

text \<open>\<^verbatim>\<open>y0 = np.asarray(y0i)\<close>, replaced by the Python list \<^verbatim>\<open>[y0i]\<close> when it is
  0-dimensional (\<open>y0i\<close> stands for the array value of the argument).\<close>

definition initial_state :: "arr \<Rightarrow> pyval" where
  "initial_state y0i =
     (if ndim y0i = 0
      then (case y0i of A0 v \<Rightarrow> PyList [v] | A1 vs \<Rightarrow> NdArray y0i | A2 rows \<Rightarrow> NdArray y0i)
      else NdArray y0i)"

text \<open>
  \<^verbatim>\<open>solve\<close>. \<open>solve_ivp\<close> is the library's solver, a parameter (it may raise);
  \<open>ode_impl\<close> is the subclass's \<^verbatim>\<open>_ode_impl\<close>. A 0-dimensional \<^verbatim>\<open>y0i\<close> is wrapped
  into a one-element list, and \<^verbatim>\<open>y0\<close> is handed to the solver as it is. The result is the updated object (its \<^verbatim>\<open>_solution\<close>) and
  the \<^verbatim>\<open>IBLResult\<close>.
\<close>

definition solve ::
  "((real \<Rightarrow> real list \<Rightarrow> real list) \<Rightarrow> real \<times> real \<Rightarrow> pyval \<Rightarrow> IBLTermEventBase list option \<Rightarrow>
      real \<Rightarrow> real \<Rightarrow> error + OdeResult) \<Rightarrow>
   (real \<Rightarrow> real list \<Rightarrow> real list) \<Rightarrow> IBLBase \<Rightarrow> real \<times> real \<Rightarrow> arr \<Rightarrow> real \<Rightarrow> real \<Rightarrow>
   term_event_arg \<Rightarrow> error + IBLBase \<times> IBLResult" where
  "solve solve_ivp ode_impl self xrange y0i rtol atol term_event =
    (let y0 = initial_state y0i;
         kill_events = kill_events_for self term_event
     in case solve_ivp ode_impl xrange y0 kill_events rtol atol of
          Inl e \<Rightarrow> Inl e
        | Inr rtn \<Rightarrow>
            (case gather_info xrange y0 kill_events rtn of
               Inl e \<Rightarrow> Inl e
             | Inr res \<Rightarrow>
                 Inr (self\<lparr>self_solution := (if ode_success rtn then Some (ode_sol rtn) else None)\<rparr>,
                      res)))"

text \<open>
  What the caller of \<^verbatim>\<open>solve\<close> gets: the \<^verbatim>\<open>IBLResult\<close>, or the raised error (the
  updated object is the side effect).
\<close>

definition solve_result ::
  "((real \<Rightarrow> real list \<Rightarrow> real list) \<Rightarrow> real \<times> real \<Rightarrow> pyval \<Rightarrow> IBLTermEventBase list option \<Rightarrow>
      real \<Rightarrow> real \<Rightarrow> error + OdeResult) \<Rightarrow>
   (real \<Rightarrow> real list \<Rightarrow> real list) \<Rightarrow> IBLBase \<Rightarrow> real \<times> real \<Rightarrow> arr \<Rightarrow> real \<Rightarrow> real \<Rightarrow>
   term_event_arg \<Rightarrow> error + IBLResult" where
  "solve_result solve_ivp ode_impl self xrange y0i rtol atol term_event =
     map_sum id snd (solve solve_ivp ode_impl self xrange y0i rtol atol term_event)"

text \<open>
  The events in registration order, as a plain list: those registered internally
  (\<^verbatim>\<open>_add_kill_event\<close>), then the extra ones of the call.
\<close>

definition registered_events :: "IBLBase \<Rightarrow> term_event_arg \<Rightarrow> IBLTermEventBase list" where
  "registered_events self term_event =
     (case self_kill_events self of None \<Rightarrow> [] | Some ks \<Rightarrow> ks) @
     (case term_event of NoTermEvent \<Rightarrow> [] | TermEventList es \<Rightarrow> es | TermEvent e \<Rightarrow> [e])"

text \<open>
  The event the specification lets win, written from its words to be compared with the
  loop above: among the events with a recorded station, the one whose first station is
  the smallest, and the one registered first among those with that station.
\<close>

fun earliest_event :: "nat \<Rightarrow> real list list \<Rightarrow> (nat \<times> real) option" where
  "earliest_event i [] = None"
| "earliest_event i ([] # xes) = earliest_event (Suc i) xes"
| "earliest_event i ((x # xs) # xes) =
     (case earliest_event (Suc i) xes of
        None \<Rightarrow> Some (i, x)
      | Some (j, x') \<Rightarrow> if x' < x then Some (j, x') else Some (i, x))"

text \<open>
  An event changes sign within the step from \<open>a\<close> to \<open>b\<close> when its values along the
  dense output at the two ends have opposite signs; \<open>r\<close> is a crossing of the event in
  the step when the event is zero there.
\<close>

definition changes_sign :: "IBLTermEventBase \<Rightarrow> (real \<Rightarrow> real list) \<Rightarrow> real \<Rightarrow> real \<Rightarrow> bool" where
  "changes_sign ev sol a b = (call_impl ev a (sol a) * call_impl ev b (sol b) < 0)"

definition crossing_at :: "IBLTermEventBase \<Rightarrow> (real \<Rightarrow> real list) \<Rightarrow> real \<Rightarrow> real \<Rightarrow> real \<Rightarrow> bool" where
  "crossing_at ev sol a b r = (a \<le> r \<and> r \<le> b \<and> call_impl ev r (sol r) = 0)"

text \<open>\<^verbatim>\<open>_add_kill_event\<close>.\<close>

definition add_kill_event :: "IBLBase \<Rightarrow> IBLTermEventBase \<Rightarrow> IBLBase" where
  "add_kill_event self ke =
     (case self_kill_events self of
        None \<Rightarrow> self\<lparr>self_kill_events := Some [ke]\<rparr>
      | Some ks \<Rightarrow> self\<lparr>self_kill_events := Some (ks @ [ke])\<rparr>)"

section \<open>Dense output queries\<close>

text \<open>
  \<^verbatim>\<open>y\<close> and \<^verbatim>\<open>yp\<close> read attributes that \<^verbatim>\<open>IBLBase\<close> itself never sets
  (\<^verbatim>\<open>dense_output_vec\<close>, \<^verbatim>\<open>x_vec\<close>, \<^verbatim>\<open>_ode.y\<close>); they are parameters here. A
  segment is the solver's dense-output object: \<^verbatim>\<open>t_old\<close>, \<^verbatim>\<open>h\<close>, \<^verbatim>\<open>order\<close>,
  the coefficient matrix \<^verbatim>\<open>Q\<close> (one row per state component) and its call.
\<close>

record DenseOutput =
  t_old :: real
  h :: real
  order :: nat
  Q :: "real list list"
  dense_call :: "real \<Rightarrow> real list"

record DenseState =
  dense_output_vec :: "DenseOutput list"
  x_vec :: "real list"
  ode_y :: "real list"

text \<open>
  The inner loop \<^verbatim>\<open>for j in range(len(self.dense_output_vec))\<close> with its test
  \<^verbatim>\<open>(x >= x_vec[j]) & (x <= x_vec[j+1])\<close>: both subscripts are evaluated (\<^verbatim>\<open>&\<close>
  does not short-circuit) and raise past the end of \<^verbatim>\<open>x_vec\<close>. The result is the
  first segment containing \<open>x\<close>, or \<open>None\<close> when the loop ends without a \<^verbatim>\<open>break\<close>.
\<close>

fun segment_of :: "real list \<Rightarrow> real \<Rightarrow> nat \<Rightarrow> DenseOutput list \<Rightarrow> error + (nat \<times> DenseOutput) option" where
  "segment_of xv x j [] = Inr None"
| "segment_of xv x j (seg # segs) =
     (if Suc j < length xv
      then (if xv ! j \<le> x \<and> x \<le> xv ! Suc j then Inr (Some (j, seg))
            else segment_of xv x (Suc j) segs)
      else Inl IndexError)"

text \<open>Assigning a vector to a row of \<open>n\<close> entries: equal length, or one entry broadcast.\<close>

definition assign_row :: "nat \<Rightarrow> 'a list \<Rightarrow> error + 'a list" where
  "assign_row n v =
     (if length v = n then Inr v
      else if length v = 1 then Inr (replicate n (hd v))
      else Inl (ValueError ''could not broadcast input array''))"

text \<open>A loop that builds a list and stops at the first error.\<close>

fun collect :: "('a \<Rightarrow> error + 'b) \<Rightarrow> 'a list \<Rightarrow> error + 'b list" where
  "collect f [] = Inr []"
| "collect f (x # xs) =
     (case f x of
        Inl e \<Rightarrow> Inl e
      | Inr r \<Rightarrow> (case collect f xs of Inl e \<Rightarrow> Inl e | Inr rs \<Rightarrow> Inr (r # rs)))"

text \<open>\<^verbatim>\<open>y\<close>: one row per queried station; a row stays at its initial zeros when no
  segment contains the station.\<close>

definition y_row :: "DenseState \<Rightarrow> real \<Rightarrow> error + real list" where
  "y_row st x =
     (case segment_of (x_vec st) x 0 (dense_output_vec st) of
        Inl e \<Rightarrow> Inl e
      | Inr None \<Rightarrow> Inr (replicate (length (ode_y st)) 0)
      | Inr (Some (j, seg)) \<Rightarrow> assign_row (length (ode_y st)) (dense_call seg x))"

definition y :: "DenseState \<Rightarrow> real list \<Rightarrow> error + real list list" where
  "y st x = collect (y_row st) x"

text \<open>
  Floating-point results in \<^verbatim>\<open>yp\<close>: \<open>Some r\<close> is a finite value, \<open>None\<close> a non-finite
  one (\<^verbatim>\<open>nan\<close> or \<^verbatim>\<open>inf\<close>). numpy division by zero raises nothing: it yields a
  non-finite value, and arithmetic on a non-finite value stays non-finite.
\<close>

definition np_div :: "real option \<Rightarrow> real option \<Rightarrow> real option" where
  "np_div a b =
     (case a of None \<Rightarrow> None
      | Some u \<Rightarrow> (case b of None \<Rightarrow> None | Some v \<Rightarrow> if v = 0 then None else Some (u / v)))"

definition np_mul :: "real option \<Rightarrow> real option \<Rightarrow> real option" where
  "np_mul a b =
     (case a of None \<Rightarrow> None | Some u \<Rightarrow> (case b of None \<Rightarrow> None | Some v \<Rightarrow> Some (u * v)))"

definition np_add :: "real option \<Rightarrow> real option \<Rightarrow> real option" where
  "np_add a b =
     (case a of None \<Rightarrow> None | Some u \<Rightarrow> (case b of None \<Rightarrow> None | Some v \<Rightarrow> Some (u + v)))"

fun cumprod_from :: "real option \<Rightarrow> real option list \<Rightarrow> real option list" where
  "cumprod_from acc [] = []"
| "cumprod_from acc (p # ps) = np_mul acc p # cumprod_from (np_mul acc p) ps"

definition cumprod :: "real option list \<Rightarrow> real option list" where
  "cumprod ps = cumprod_from (Some 1) ps"

text \<open>\<^verbatim>\<open>np.arange(1, k + 1)\<close>.\<close>

definition arange1 :: "nat \<Rightarrow> real list" where
  "arange1 k = map real [1..<Suc k]"

text \<open>One row of \<^verbatim>\<open>term2*term3\<close>: a row of \<^verbatim>\<open>Q\<close> times \<open>1, 2, ...\<close>; a one-entry
  row is broadcast, any other length mismatch raises.\<close>

definition weighted_row :: "real list \<Rightarrow> real list \<Rightarrow> error + real list" where
  "weighted_row term2 row =
     (if length row = length term2 then Inr (map2 (*) term2 row)
      else if length row = 1 then Inr (map (\<lambda>c. c * hd row) term2)
      else Inl (ValueError ''operands could not be broadcast together''))"

definition np_dot :: "real list \<Rightarrow> real option list \<Rightarrow> real option" where
  "np_dot ws p = foldl np_add (Some 0) (map2 (\<lambda>w q. np_mul (Some w) q) ws p)"

text \<open>
  \<^verbatim>\<open>yp\<close> for one station (the scalar branch \<^verbatim>\<open>np.array(x_array[i]).ndim == 0\<close>, the
  one a vector of stations takes): \<^verbatim>\<open>xdist\<close>, then \<^verbatim>\<open>p = np.cumprod(p)/p\<close>, then
  \<^verbatim>\<open>np.dot(term2*term3, term4)\<close>.
\<close>

definition yp_row :: "DenseState \<Rightarrow> real \<Rightarrow> error + real option list" where
  "yp_row st x =
     (case segment_of (x_vec st) x 0 (dense_output_vec st) of
        Inl e \<Rightarrow> Inl e
      | Inr None \<Rightarrow> Inr (replicate (length (ode_y st)) (Some 0))
      | Inr (Some (j, seg)) \<Rightarrow>
          (let xdist = np_div (Some (x - t_old seg)) (Some (h seg));
               p0 = replicate (order seg + 1) xdist;
               p = map2 np_div (cumprod p0) p0;
               term2 = arange1 (order seg + 1)
           in case collect (weighted_row term2) (Q seg) of
                Inl e \<Rightarrow> Inl e
              | Inr term23 \<Rightarrow> assign_row (length (ode_y st)) (map (\<lambda>ws. np_dot ws p) term23)))"

definition yp :: "DenseState \<Rightarrow> real list \<Rightarrow> error + real option list list" where
  "yp st x = collect (yp_row st) x"

section \<open>Concrete instances\<close>

text \<open>
  Stand-ins for the library calls in the closed instances below: a solver that returns
  a given result object whatever it is asked, a solver that raises a given error, a
  spline constructor that accepts its points, and a finite-difference routine.
\<close>

definition returning ::
  "OdeResult \<Rightarrow> (real \<Rightarrow> real list \<Rightarrow> real list) \<Rightarrow> real \<times> real \<Rightarrow> pyval \<Rightarrow>
   IBLTermEventBase list option \<Rightarrow> real \<Rightarrow> real \<Rightarrow> error + OdeResult" where
  "returning rtn ode_impl xrange y0 events rtol atol = Inr rtn"

definition raising ::
  "error \<Rightarrow> (real \<Rightarrow> real list \<Rightarrow> real list) \<Rightarrow> real \<times> real \<Rightarrow> pyval \<Rightarrow>
   IBLTermEventBase list option \<Rightarrow> real \<Rightarrow> real \<Rightarrow> error + OdeResult" where
  "raising e ode_impl xrange y0 events rtol atol = Inl e"

definition accepting_spline :: "real list \<Rightarrow> real list \<Rightarrow> error + vfun" where
  "accepting_spline xs us = Inr (VFun (\<lambda>x. 0) (Some (\<lambda>k. VFun (\<lambda>x. 0) None)))"

definition zero_fd :: "(real \<Rightarrow> real) \<Rightarrow> real \<Rightarrow> real \<Rightarrow> nat \<Rightarrow> nat \<Rightarrow> real" where
  "zero_fd f x dx n k = 0"

definition decay :: "real \<Rightarrow> real list \<Rightarrow> real list" where
  "decay x F = map uminus F"

definition one_plus_x :: vfun where
  "one_plus_x = VFun (\<lambda>x. 1 + x) None"

text \<open>Two events: a separation event and a transition event.\<close>

definition ev_late :: IBLTermEventBase where
  "ev_late = \<lparr>terminal = True, call_impl = (\<lambda>x F. x - 4 / 5), event_info = (- 1, ''late'')\<rparr>"

definition ev_early :: IBLTermEventBase where
  "ev_early = \<lparr>terminal = True, call_impl = (\<lambda>x F. x - 1 / 2), event_info = (1, ''early'')\<rparr>"

text \<open>Solver reports: completion at the end of \<open>(0, 1)\<close>; a failure; an event stop with
  no recorded station; an event stop at \<open>1/2\<close> on the second of two events; and a report
  with a station for each of two events, one of them beyond the other.\<close>

definition rtn_completed :: OdeResult where
  "rtn_completed = \<lparr>ode_message = ''The solver successfully reached the end of the integration interval.'',
     ode_success = True, ode_status = 0, ode_t = [0, 1 / 2, 1], ode_t_events = None,
     ode_sol = (\<lambda>x. [1 - x])\<rparr>"

definition rtn_failed :: OdeResult where
  "rtn_failed = \<lparr>ode_message = ''Required step size is less than spacing between numbers.'',
     ode_success = False, ode_status = - 1, ode_t = [0, 1 / 4], ode_t_events = Some [[], []],
     ode_sol = (\<lambda>x. [1 - x])\<rparr>"

definition rtn_no_station :: OdeResult where
  "rtn_no_station = \<lparr>ode_message = ''A termination event occurred.'',
     ode_success = True, ode_status = 1, ode_t = [0, 1 / 2], ode_t_events = Some [[], []],
     ode_sol = (\<lambda>x. [1 - x])\<rparr>"

definition rtn_event_stop :: OdeResult where
  "rtn_event_stop = \<lparr>ode_message = ''A termination event occurred.'',
     ode_success = True, ode_status = 1, ode_t = [0, 1 / 2], ode_t_events = Some [[], [1 / 2]],
     ode_sol = (\<lambda>x. [1 - x])\<rparr>"

definition rtn_two_stations :: OdeResult where
  "rtn_two_stations = \<lparr>ode_message = ''A termination event occurred.'',
     ode_success = True, ode_status = 1, ode_t = [0, 1], ode_t_events = Some [[4 / 5], [1 / 2]],
     ode_sol = (\<lambda>x. [1 - x])\<rparr>"

text \<open>One segment on \<open>[0, 1]\<close> with the state \<open>1 + 2 t + 3 t\<^sup>2\<close>, whose derivative is
  \<open>2 + 6 t\<close>.\<close>

definition seg01 :: DenseOutput where
  "seg01 = \<lparr>t_old = 0, h = 1, order = 1, Q = [[2, 3]],
     dense_call = (\<lambda>t. [1 + 2 * t + 3 * t * t])\<rparr>"

definition dense01 :: DenseState where
  "dense01 = \<lparr>dense_output_vec = [seg01], x_vec = [0, 1], ode_y = [6]\<rparr>"

section \<open>Auxiliary facts\<close>

lemma first_event_None: "(first_event i tes = None) = (\<forall>xe\<in>set tes. xe = [])"
  by (induction i tes rule: first_event.induct) auto

lemma first_event_Some:
  "k < length tes \<Longrightarrow> tes ! k \<noteq> [] \<Longrightarrow> \<forall>j<k. tes ! j = [] \<Longrightarrow>
   first_event i tes = Some (i + k, hd (tes ! k))"
proof (induction i tes arbitrary: k rule: first_event.induct)
  case (1 i)
  then show ?case by simp
next
  case (2 i xes)
  then obtain k' where k: "k = Suc k'" by (cases k) auto
  with 2 have "first_event (Suc i) xes = Some (Suc i + k', hd (xes ! k'))"
    by (intro "2.IH") auto
  with k show ?case by simp
next
  case (3 i x xs xes)
  then have "k = 0" by (cases k) auto
  then show ?case by simp
qed

lemma kill_events_for_registered:
  "kill_events_for self term_event =
     (if self_kill_events self = None \<and> term_event = NoTermEvent then None
      else Some (registered_events self term_event))"
  by (simp add: kill_events_for_def registered_events_def split: option.splits term_event_arg.splits)

lemma TERMINATION_MESSAGES_simps:
  "TERMINATION_MESSAGES 0 = Some ''Completed''"
  "TERMINATION_MESSAGES (- 99) = Some ''Unknown Event''"
  by (simp_all add: TERMINATION_MESSAGES_def)

lemma first_event_bound: "first_event k tes = Some (i, x) \<Longrightarrow> k \<le> i \<and> i < k + length tes"
  by (induction k tes rule: first_event.induct) (auto split: if_splits)

lemma earliest_event_None: "(earliest_event i xs = None) = (\<forall>xe\<in>set xs. xe = [])"
  by (induction i xs rule: earliest_event.induct) (auto split: option.splits)

text \<open>
  What \<open>earliest_event\<close> returns: an event with a crossing, no crossing of another
  event before it, and none at the same station for an event registered earlier.
\<close>

lemma earliest_event_props:
  "earliest_event i xs = Some (w, s) \<Longrightarrow>
   i \<le> w \<and> w - i < length xs \<and> xs ! (w - i) \<noteq> [] \<and> hd (xs ! (w - i)) = s \<and>
   (\<forall>k<length xs. xs ! k \<noteq> [] \<longrightarrow> s \<le> hd (xs ! k)) \<and>
   (\<forall>k<w - i. xs ! k \<noteq> [] \<longrightarrow> s < hd (xs ! k))"
proof (induction i xs arbitrary: w s rule: earliest_event.induct)
  case (1 i)
  then show ?case by simp
next
  case (2 i xes)
  from "2.prems" have e: "earliest_event (Suc i) xes = Some (w, s)" by simp
  note ih = "2.IH" [OF e]
  from ih obtain d where d: "w - i = Suc d" "w - Suc i = d"
    by (cases "w - i") auto
  show ?case
    using ih d by (auto simp: nth_Cons split: nat.splits)
next
  case (3 i x xs' xes)
  show ?case
  proof (cases "earliest_event (Suc i) xes")
    case None
    with "3.prems" have ws: "w = i" "s = x" by simp_all
    from None have "\<forall>xe\<in>set xes. xe = []" by (simp add: earliest_event_None)
    then have "\<forall>k<length xes. xes ! k = []" by simp
    with ws show ?thesis by (auto simp: nth_Cons split: nat.splits)
  next
    case (Some p)
    obtain j x' where p: "p = (j, x')" by (cases p)
    note ih = "3.IH" [OF Some [unfolded p]]
    show ?thesis
    proof (cases "x' < x")
      case True
      with "3.prems" Some p have ws: "w = j" "s = x'" by simp_all
      from ih obtain d where d: "j - i = Suc d" "j - Suc i = d"
        by (cases "j - i") auto
      show ?thesis
        using ih d ws True by (auto simp: nth_Cons split: nat.splits)
    next
      case False
      with "3.prems" Some p have ws: "w = i" "s = x" by simp_all
      have "x \<le> hd (xes ! k)" if "k < length xes" "xes ! k \<noteq> []" for k
        using ih that False by fastforce
      with ws show ?thesis by (auto simp: nth_Cons split: nat.splits)
    qed
  qed
qed

text \<open>The result of \<^verbatim>\<open>solve\<close> when the loop over \<^verbatim>\<open>rtn.t_events\<close> finds event \<open>i\<close>
  with first station \<open>x\<close>.\<close>

lemma solve_result_first_event:
  assumes "solve_ivp ode_impl xrange (initial_state y0i) (kill_events_for self term_event) rtol atol
             = Inr rtn"
    and "ode_success rtn" and "ode_status rtn = 1"
    and "ode_t_events rtn = Some tes"
    and "first_event 0 tes = Some (i, x)"
    and "i < length (registered_events self term_event)"
  shows "solve_result solve_ivp ode_impl self xrange y0i rtol atol term_event =
           (let ev = registered_events self term_event ! i;
                code = fst (event_info ev); reason = snd (event_info ev)
            in Inr \<lparr>x_end = x, F_end = NdArray (A1 (ode_sol rtn x)), status = code,
                    message = (if reason = [] then TERMINATION_MESSAGES code
                               else Some (py_str (TERMINATION_MESSAGES code) @ '': '' @ reason)),
                    success = True\<rparr>)"
proof -
  have ke: "kill_events_for self term_event = Some (registered_events self term_event)"
    using assms(6) by (auto simp: kill_events_for_registered registered_events_def)
  show ?thesis
    using assms ke
    by (simp add: solve_result_def solve_def gather_info_def Let_def case_prod_beta)
qed

lemma segment_of_none:
  "j + length segs < length xv \<Longrightarrow>
   (\<And>k. j \<le> k \<Longrightarrow> k < j + length segs \<Longrightarrow> \<not> (xv ! k \<le> x \<and> x \<le> xv ! Suc k)) \<Longrightarrow>
   segment_of xv x j segs = Inr None"
proof (induction segs arbitrary: j)
  case Nil
  then show ?case by simp
next
  case (Cons seg segs)
  have here: "\<not> (xv ! j \<le> x \<and> x \<le> xv ! Suc j)"
    using Cons.prems(2) [of j] by simp
  have rest: "segment_of xv x (Suc j) segs = Inr None"
  proof (rule Cons.IH)
    show "Suc j + length segs < length xv" using Cons.prems(1) by simp
  next
    fix k assume "Suc j \<le> k" "k < Suc j + length segs"
    then show "\<not> (xv ! k \<le> x \<and> x \<le> xv ! Suc k)"
      using Cons.prems(2) [of k] by simp
  qed
  from Cons.prems(1) here rest show ?case by auto
qed

lemma outside_sorted_range:
  assumes "sorted xv" and "Suc k < length xv" and "x < hd xv \<or> last xv < x"
  shows "\<not> (xv ! k \<le> x \<and> x \<le> xv ! Suc k)"
proof -
  from assms(2) have ne: "xv \<noteq> []" by auto
  have lo: "hd xv \<le> xv ! k"
    using assms(1,2) ne by (simp add: hd_conv_nth sorted_nth_mono)
  have hi: "xv ! Suc k \<le> last xv"
    using assms(1,2) ne by (simp add: last_conv_nth sorted_nth_mono)
  from assms(3) lo hi show ?thesis by auto
qed

lemma collect_map:
  "(\<And>x. x \<in> set xs \<Longrightarrow> f x = Inr (g x)) \<Longrightarrow> collect f xs = Inr (map g xs)"
  by (induction xs) simp_all

lemma length_cumprod_from: "length (cumprod_from acc ps) = length ps"
  by (induction ps arbitrary: acc) simp_all

lemma np_div_zero_offset: "z = None \<or> z = Some 0 \<Longrightarrow> np_div c z = None"
  by (auto simp: np_div_def split: option.splits)

lemma map2_np_div_zero_offset:
  "z = None \<or> z = Some 0 \<Longrightarrow> length cs = k \<Longrightarrow>
   map2 np_div cs (replicate k z) = replicate k None"
proof (induction cs arbitrary: k)
  case Nil
  then show ?case by simp
next
  case (Cons c cs)
  then obtain k' where "k = Suc k'" by (cases k) auto
  with Cons show ?case by (simp add: np_div_zero_offset)
qed

lemma foldl_np_add_None: "foldl np_add None qs = None"
  by (induction qs) (simp_all add: np_add_def)

lemma np_dot_not_finite:
  "length ws = Suc k \<Longrightarrow> np_dot ws (replicate (Suc k) None) = None"
  by (cases ws) (simp_all add: np_dot_def np_mul_def np_add_def foldl_np_add_None)

lemma collect_weighted_rows:
  "(\<And>row. row \<in> set rows \<Longrightarrow> length row = length term2) \<Longrightarrow>
   collect (weighted_row term2) rows = Inr (map (\<lambda>row. map2 (*) term2 row) rows)"
  by (induction rows) (simp_all add: weighted_row_def)

lemma length_arange1: "length (arange1 k) = k"
  by (simp add: arange1_def)

text \<open>
  A station at local offset zero of the segment that the search finds: \<^verbatim>\<open>xdist\<close> is
  zero (or not finite, when \<^verbatim>\<open>h\<close> is zero), every entry of \<^verbatim>\<open>np.cumprod(p)/p\<close> is a
  division by it, and the whole row is not finite.
\<close>

lemma yp_row_zero_offset:
  assumes found: "segment_of (x_vec st) x 0 (dense_output_vec st) = Inr (Some (j, seg))"
    and offset: "x = t_old seg"
    and rows: "\<And>row. row \<in> set (Q seg) \<Longrightarrow> length row = order seg + 1"
    and dim: "length (Q seg) = length (ode_y st)"
  shows "yp_row st x = Inr (replicate (length (ode_y st)) None)"
proof -
  define z where "z = np_div (Some (x - t_old seg)) (Some (h seg))"
  have z: "z = None \<or> z = Some 0"
    using offset by (simp add: z_def np_div_def)
  define k where "k = order seg + 1"
  have p: "map2 np_div (cumprod (replicate k z)) (replicate k z) = replicate k None"
    using z by (rule map2_np_div_zero_offset) (simp add: cumprod_def length_cumprod_from)
  have c: "collect (weighted_row (arange1 k)) (Q seg) =
             Inr (map (\<lambda>row. map2 (*) (arange1 k) row) (Q seg))"
    by (rule collect_weighted_rows) (simp add: rows length_arange1 k_def)
  have d: "map (\<lambda>row. np_dot (map2 (*) (arange1 k) row) (replicate k None)) (Q seg) =
             replicate (length (Q seg)) None"
  proof -
    have "np_dot (map2 (*) (arange1 k) row) (replicate k None) = None" if "row \<in> set (Q seg)" for row
    proof -
      have "length (map2 (*) (arange1 k) row) = Suc (order seg)"
        using rows [OF that] by (simp add: length_arange1 k_def)
      then have "np_dot (map2 (*) (arange1 k) row) (replicate (Suc (order seg)) None) = None"
        by (rule np_dot_not_finite)
      then show ?thesis
        by (simp only: k_def Suc_eq_plus1)
    qed
    then show ?thesis
      by (simp add: map_replicate_const [symmetric] cong: map_cong)
  qed
  have "yp_row st x =
          (case collect (weighted_row (arange1 k)) (Q seg) of
             Inl e \<Rightarrow> Inl e
           | Inr term23 \<Rightarrow>
               assign_row (length (ode_y st))
                 (map (\<lambda>ws. np_dot ws (map2 np_div (cumprod (replicate k z)) (replicate k z))) term23))"
    unfolding yp_row_def Let_def z_def k_def found
    by (simp only: sum.case option.case prod.case)
  also have "\<dots> = assign_row (length (ode_y st)) (replicate (length (Q seg)) None)"
    by (simp only: p c d sum.case list.map_comp comp_def)
  also have "\<dots> = Inr (replicate (length (ode_y st)) None)"
    by (simp add: assign_row_def dim)
  finally show ?thesis .
qed

lemma all_less_two: "(\<forall>i<Suc (Suc 0). P i) = (P 0 \<and> P (Suc 0))"
  by (auto simp: less_Suc_eq)

text \<open>What is gathered from the list \<^verbatim>\<open>[v]\<close> and from the array differs in the container
  of the end state only.\<close>

lemma gather_info_scalar:
  "map_sum id (\<lambda>res. res\<lparr>F_end := NdArray (np_asarray (F_end res))\<rparr>)
     (gather_info xrange (PyList [v]) kes rtn) =
   gather_info xrange (NdArray (A1 [v])) kes rtn"
  by (simp add: gather_info_def split: option.split prod.split)

section \<open>Results of \<^verbatim>\<open>solve\<close>\<close>

text \<open>
  Claim C1. When the solver succeeds with status 0, that is, it reached the end of the
  station range without a terminating event (the last station of its mesh is
  \<^verbatim>\<open>xrange[1]\<close>), \<^verbatim>\<open>solve\<close> returns status 0 (message \<^verbatim>\<open>Completed\<close>), the end of
  the range as end station, the dense output evaluated there as end state, and
  \<^verbatim>\<open>success = True\<close>.
\<close>

theorem solve_completed:
  assumes "solve_ivp ode_impl xrange (initial_state y0i) (kill_events_for self term_event) rtol atol
             = Inr rtn"
    and "ode_success rtn" and "ode_status rtn = 0"
    and "ode_t rtn \<noteq> []" and "last (ode_t rtn) = snd xrange"
  shows "solve_result solve_ivp ode_impl self xrange y0i rtol atol term_event =
           Inr \<lparr>x_end = snd xrange, F_end = NdArray (A1 (ode_sol rtn (snd xrange))), status = 0,
                message = Some ''Completed'', success = True\<rparr>"
  using assms
  by (simp add: solve_result_def solve_def gather_info_def TERMINATION_MESSAGES_simps)

theorem solve_completed_witness:
  "ode_success rtn_completed \<and> ode_status rtn_completed = 0 \<and> last (ode_t rtn_completed) = 1 \<and>
   solve_result (returning rtn_completed) decay new_IBLBase (0, 1) (A1 [1]) (1 / 10 ^ 8) (1 / 10 ^ 11)
     NoTermEvent =
   Inr \<lparr>x_end = 1, F_end = NdArray (A1 [0]), status = 0, message = Some ''Completed'',
        success = True\<rparr>"
  using solve_completed [of "returning rtn_completed" decay "(0, 1)" "A1 [1]" new_IBLBase NoTermEvent
      "1 / 10 ^ 8" "1 / 10 ^ 11" rtn_completed]
  by (simp add: returning_def rtn_completed_def)

text \<open>
  Claim C2. Two or more registered termination events change sign within the accepted
  step from \<open>a\<close> to \<open>b\<close>; \<open>xs\<close> holds, for each registered event, its root-found
  crossing in that step (none for an event that does not change sign). The solver is
  scipy's, outside the repository, and enters with its contract for terminal events: it
  stops at the earliest crossing, it records a station only for an event crossing there,
  and the first registered of those is recorded. Then the end station of the result is
  the smallest crossing, the event reported is the one crossing there, the one
  registered first (internal events before extra events) when several do, the end state
  is the dense output at that station, and status and message come from that event's
  \<^verbatim>\<open>event_info()\<close>.
\<close>

theorem solve_earliest_event_wins:
  assumes "solve_ivp ode_impl xrange (initial_state y0i) (kill_events_for self term_event) rtol atol
             = Inr rtn"
    and "ode_success rtn" and "ode_status rtn = 1"
    and "ode_t_events rtn = Some tes"
    and "\<forall>ev\<in>set (registered_events self term_event). terminal ev"
    and "length xs = length (registered_events self term_event)"
    and "\<forall>i<length xs.
           (xs ! i \<noteq> [] \<longleftrightarrow> changes_sign (registered_events self term_event ! i) (ode_sol rtn) a b) \<and>
           (\<forall>r\<in>set (xs ! i). crossing_at (registered_events self term_event ! i) (ode_sol rtn) a b r)"
    and "2 \<le> length (filter (\<lambda>xe. xe \<noteq> []) xs)"
    and "length tes = length xs"
    and "\<forall>i<length tes. tes ! i \<noteq> [] \<longrightarrow> tes ! i = xs ! i"
    and "\<forall>i<length tes. \<forall>j<length xs. tes ! i \<noteq> [] \<longrightarrow> xs ! j \<noteq> [] \<longrightarrow> hd (tes ! i) \<le> hd (xs ! j)"
    and "\<forall>i<length xs. xs ! i \<noteq> [] \<longrightarrow>
           (\<forall>j<length xs. xs ! j \<noteq> [] \<longrightarrow> hd (xs ! i) \<le> hd (xs ! j)) \<longrightarrow>
           (\<forall>j<i. xs ! j \<noteq> [] \<longrightarrow> hd (xs ! i) < hd (xs ! j)) \<longrightarrow> tes ! i = xs ! i"
  shows "\<exists>w s. earliest_event 0 xs = Some (w, s) \<and>
           solve_result solve_ivp ode_impl self xrange y0i rtol atol term_event =
             (let ev = registered_events self term_event ! w;
                  code = fst (event_info ev); reason = snd (event_info ev)
              in Inr \<lparr>x_end = s, F_end = NdArray (A1 (ode_sol rtn s)), status = code,
                      message = (if reason = [] then TERMINATION_MESSAGES code
                                 else Some (py_str (TERMINATION_MESSAGES code) @ '': '' @ reason)),
                      success = True\<rparr>)"
proof -
  from assms(8) have "filter (\<lambda>xe. xe \<noteq> []) xs \<noteq> []" by auto
  then have "\<not> (\<forall>xe\<in>set xs. xe = [])" by (simp add: filter_empty_conv)
  then obtain w s where ws: "earliest_event 0 xs = Some (w, s)"
    by (cases "earliest_event 0 xs") (auto simp: earliest_event_None)
  from earliest_event_props [OF ws]
  have w: "w < length xs" and ne: "xs ! w \<noteq> []" and hd: "hd (xs ! w) = s"
    and least: "\<forall>k<length xs. xs ! k \<noteq> [] \<longrightarrow> s \<le> hd (xs ! k)"
    and first: "\<forall>k<w. xs ! k \<noteq> [] \<longrightarrow> s < hd (xs ! k)"
    by simp_all
  have rec: "tes ! w = xs ! w"
    using assms(12) w ne hd least first by simp
  have before: "tes ! j = []" if "j < w" for j
  proof (rule ccontr)
    assume j: "tes ! j \<noteq> []"
    from that w assms(9) have jl: "j < length tes" "j < length xs" by simp_all
    with assms(10) j have eq: "tes ! j = xs ! j" by simp
    from assms(11) jl(1) w j ne have "hd (tes ! j) \<le> hd (xs ! w)" by blast
    moreover from first that eq j have "s < hd (tes ! j)" by simp
    ultimately show False using hd by simp
  qed
  have "first_event 0 tes = Some (0 + w, hd (tes ! w))"
  proof (rule first_event_Some)
    show "w < length tes" using w assms(9) by simp
    show "tes ! w \<noteq> []" using rec ne by simp
    show "\<forall>j<w. tes ! j = []" using before by simp
  qed
  then have fe: "first_event 0 tes = Some (w, s)"
    using rec hd by simp
  from w assms(6) have wl: "w < length (registered_events self term_event)" by simp
  note res = solve_result_first_event [of solve_ivp ode_impl xrange y0i self term_event rtol atol
      rtn tes w s, OF assms(1) assms(2) assms(3) assms(4) fe wl]
  show ?thesis
    by (intro exI [of _ w] exI [of _ s] conjI ws res)
qed

text \<open>
  Both events change sign within the step from \<open>0\<close> to \<open>1\<close>, the first registered at
  \<open>4/5\<close> and the second at \<open>1/2\<close>; the solver stops at \<open>1/2\<close> and records that
  station for the second event only.
\<close>

theorem solve_earliest_event_wins_witness:
  "changes_sign ev_late (ode_sol rtn_event_stop) 0 1 \<and>
   changes_sign ev_early (ode_sol rtn_event_stop) 0 1 \<and>
   crossing_at ev_late (ode_sol rtn_event_stop) 0 1 (4 / 5) \<and>
   crossing_at ev_early (ode_sol rtn_event_stop) 0 1 (1 / 2) \<and>
   ode_t_events rtn_event_stop = Some [[], [1 / 2]] \<and>
   registered_events (add_kill_event new_IBLBase ev_late) (TermEvent ev_early) = [ev_late, ev_early] \<and>
   earliest_event 0 [[4 / 5], [1 / 2]] = Some (1, 1 / 2) \<and>
   solve_result (returning rtn_event_stop) decay (add_kill_event new_IBLBase ev_late) (0, 1) (A1 [1])
     (1 / 10 ^ 8) (1 / 10 ^ 11) (TermEvent ev_early) =
   Inr \<lparr>x_end = 1 / 2, F_end = NdArray (A1 [1 / 2]), status = 1,
        message = Some ''Transition: early'', success = True\<rparr>"
proof -
  let ?self = "add_kill_event new_IBLBase ev_late"
  let ?te = "TermEvent ev_early"
  let ?xs = "[[4 / 5], [1 / 2 :: real]]"
  let ?tes = "[[], [1 / 2 :: real]]"
  have reg: "registered_events ?self ?te = [ev_late, ev_early]"
    by (simp add: registered_events_def add_kill_event_def new_IBLBase_def)
  have late: "changes_sign ev_late (ode_sol rtn_event_stop) 0 1"
    "crossing_at ev_late (ode_sol rtn_event_stop) 0 1 (4 / 5)"
    by (simp_all add: changes_sign_def crossing_at_def ev_late_def)
  have early: "changes_sign ev_early (ode_sol rtn_event_stop) 0 1"
    "crossing_at ev_early (ode_sol rtn_event_stop) 0 1 (1 / 2)"
    by (simp_all add: changes_sign_def crossing_at_def ev_early_def)
  have h1: "returning rtn_event_stop decay (0, 1) (initial_state (A1 [1])) (kill_events_for ?self ?te)
              (1 / 10 ^ 8) (1 / 10 ^ 11) = Inr rtn_event_stop"
    by (simp add: returning_def)
  have h2: "ode_success rtn_event_stop" and h3: "ode_status rtn_event_stop = 1"
    and h4: "ode_t_events rtn_event_stop = Some ?tes"
    by (simp_all add: rtn_event_stop_def)
  have h5: "\<forall>ev\<in>set (registered_events ?self ?te). terminal ev"
    unfolding reg by (simp add: ev_late_def ev_early_def)
  have h6: "length ?xs = length (registered_events ?self ?te)"
    unfolding reg by simp
  have h7: "\<forall>i<length ?xs.
           (?xs ! i \<noteq> [] \<longleftrightarrow> changes_sign (registered_events ?self ?te ! i) (ode_sol rtn_event_stop) 0 1) \<and>
           (\<forall>r\<in>set (?xs ! i). crossing_at (registered_events ?self ?te ! i) (ode_sol rtn_event_stop) 0 1 r)"
    using late early unfolding reg by (simp add: all_less_two)
  have h8: "2 \<le> length (filter (\<lambda>xe. xe \<noteq> []) ?xs)"
    by simp
  have h9: "length ?tes = length ?xs"
    by simp
  have h10: "\<forall>i<length ?tes. ?tes ! i \<noteq> [] \<longrightarrow> ?tes ! i = ?xs ! i"
    by (simp add: all_less_two)
  have h11: "\<forall>i<length ?tes. \<forall>j<length ?xs. ?tes ! i \<noteq> [] \<longrightarrow> ?xs ! j \<noteq> [] \<longrightarrow>
               hd (?tes ! i) \<le> hd (?xs ! j)"
    by (simp add: all_less_two)
  have h12: "\<forall>i<length ?xs. ?xs ! i \<noteq> [] \<longrightarrow>
           (\<forall>j<length ?xs. ?xs ! j \<noteq> [] \<longrightarrow> hd (?xs ! i) \<le> hd (?xs ! j)) \<longrightarrow>
           (\<forall>j<i. ?xs ! j \<noteq> [] \<longrightarrow> hd (?xs ! i) < hd (?xs ! j)) \<longrightarrow> ?tes ! i = ?xs ! i"
    by (simp add: all_less_two)
  have e: "earliest_event 0 ?xs = Some (1, 1 / 2)"
    by simp
  from solve_earliest_event_wins [of "returning rtn_event_stop" decay "(0, 1)" "A1 [1]" ?self ?te
      "1 / 10 ^ 8" "1 / 10 ^ 11" rtn_event_stop ?tes ?xs 0 1, OF h1 h2 h3 h4 h5 h6 h7 h8 h9 h10 h11 h12]
  obtain w s where ws: "earliest_event 0 ?xs = Some (w, s)"
    and res: "solve_result (returning rtn_event_stop) decay ?self (0, 1) (A1 [1]) (1 / 10 ^ 8)
                (1 / 10 ^ 11) ?te =
              (let ev = registered_events ?self ?te ! w;
                   code = fst (event_info ev); reason = snd (event_info ev)
               in Inr \<lparr>x_end = s, F_end = NdArray (A1 (ode_sol rtn_event_stop s)), status = code,
                       message = (if reason = [] then TERMINATION_MESSAGES code
                                  else Some (py_str (TERMINATION_MESSAGES code) @ '': '' @ reason)),
                       success = True\<rparr>)"
    by blast
  from ws e have w: "w = 1" "s = 1 / 2" by simp_all
  have "solve_result (returning rtn_event_stop) decay ?self (0, 1) (A1 [1]) (1 / 10 ^ 8)
          (1 / 10 ^ 11) ?te =
        Inr \<lparr>x_end = 1 / 2, F_end = NdArray (A1 [1 / 2]), status = 1,
             message = Some ''Transition: early'', success = True\<rparr>"
    unfolding res w reg
    by (simp add: ev_early_def TERMINATION_MESSAGES_def rtn_event_stop_def)
  with late early h4 reg e show ?thesis by simp
qed

text \<open>
  The choice among the events is the solver's: \<^verbatim>\<open>solve\<close> compares no stations, it takes
  the first event in registration order with a recorded station. On a report outside the
  contract, with a station recorded beyond the one where a terminal event stops the
  integration, that is the event registered first and not the earliest one.
\<close>

lemma solve_takes_first_recorded:
  "ode_t_events rtn_two_stations = Some [[4 / 5], [1 / 2]] \<and>
   solve_result (returning rtn_two_stations) decay new_IBLBase (0, 1) (A1 [1]) (1 / 10 ^ 8) (1 / 10 ^ 11)
     (TermEventList [ev_late, ev_early]) =
   Inr \<lparr>x_end = 4 / 5, F_end = NdArray (A1 [1 / 5]), status = - 1,
        message = Some ''Separated: late'', success = True\<rparr>"
  by (simp add: solve_result_def solve_def gather_info_def returning_def rtn_two_stations_def
      kill_events_for_def new_IBLBase_def ev_late_def ev_early_def initial_state_def
      TERMINATION_MESSAGES_def)

text \<open>
  Claim C5, as the code has it. When the solver returns a failure (\<^verbatim>\<open>success\<close> false),
  \<^verbatim>\<open>solve\<close> raises nothing: it returns a result with status \<open>-99\<close>,
  \<^verbatim>\<open>success = False\<close> and a message that ends with the solver's own message. When the
  solver raises instead of returning (the library does so for a non-finite initial
  state), nothing in \<^verbatim>\<open>solve\<close> catches the error: it leaves \<^verbatim>\<open>solve\<close> unchanged.
\<close>

theorem solve_solver_failure:
  "(solve_ivp ode_impl xrange (initial_state y0i) (kill_events_for self term_event) rtol atol = Inl e
      \<longrightarrow> solve_result solve_ivp ode_impl self xrange y0i rtol atol term_event = Inl e) \<and>
   (solve_ivp ode_impl xrange (initial_state y0i) (kill_events_for self term_event) rtol atol = Inr rtn
      \<longrightarrow> \<not> ode_success rtn
      \<longrightarrow> (\<exists>res. solve_result solve_ivp ode_impl self xrange y0i rtol atol term_event = Inr res \<and>
             status res = - 99 \<and> \<not> success res \<and>
             message res = Some (if ode_message rtn = [] then ''Unknown Event''
                                 else ''Unknown Event: '' @ ode_message rtn)))"
  by (simp add: solve_result_def solve_def gather_info_def TERMINATION_MESSAGES_simps)

theorem solve_solver_failure_witness:
  "\<not> ode_success rtn_failed \<and>
   (\<exists>res. solve_result (returning rtn_failed) decay new_IBLBase (0, 1) (A1 [1]) (1 / 10 ^ 8)
             (1 / 10 ^ 11) (TermEventList [ev_late, ev_early]) = Inr res \<and>
          status res = - 99 \<and> \<not> success res \<and>
          message res =
            Some ''Unknown Event: Required step size is less than spacing between numbers.'') \<and>
   solve_result (raising (ValueError ''raised inside solve_ivp'')) decay new_IBLBase (0, 1) (A1 [1, 2])
     (1 / 10 ^ 8) (1 / 10 ^ 11) (TermEventList [ev_late, ev_early]) =
   Inl (ValueError ''raised inside solve_ivp'')"
  using solve_solver_failure [of "returning rtn_failed" decay "(0, 1)" "A1 [1]" new_IBLBase
      "TermEventList [ev_late, ev_early]" "1 / 10 ^ 8" "1 / 10 ^ 11" _ rtn_failed]
    solve_solver_failure [of "raising (ValueError ''raised inside solve_ivp'')" decay "(0, 1)"
      "A1 [1, 2]" new_IBLBase "TermEventList [ev_late, ev_early]" "1 / 10 ^ 8" "1 / 10 ^ 11"
      "ValueError ''raised inside solve_ivp''"]
  by (simp add: returning_def raising_def rtn_failed_def)

text \<open>
  A solver that raises a \<open>ValueError\<close>, as the library does when it is handed a
  non-finite initial state (the reals of this development have no such value, so the
  stand-in raises on every call; the message is a placeholder): \<^verbatim>\<open>solve\<close> returns no
  result, the error reaches the caller.
\<close>

theorem solve_solver_error_propagates:
  "solve_result (raising (ValueError ''raised inside solve_ivp'')) decay new_IBLBase (0, 1) (A1 [1])
     (1 / 10 ^ 8) (1 / 10 ^ 11) NoTermEvent = Inl (ValueError ''raised inside solve_ivp'')"
  by (simp add: solve_result_def solve_def raising_def)

text \<open>
  Claim C6. When the solver reports an event-triggered stop (success, status 1) and no
  event has a recorded station, the result has status \<open>-99\<close> and the message
  \<^verbatim>\<open>Unknown Event: Event not found.\<close>
\<close>

theorem solve_event_not_found:
  assumes "solve_ivp ode_impl xrange (initial_state y0i) (kill_events_for self term_event) rtol atol
             = Inr rtn"
    and "ode_success rtn" and "ode_status rtn = 1"
    and "ode_t_events rtn = Some tes" and "\<forall>xe\<in>set tes. xe = []"
  shows "solve_result solve_ivp ode_impl self xrange y0i rtol atol term_event =
           Inr \<lparr>x_end = fst xrange, F_end = initial_state y0i, status = - 99,
                message = Some ''Unknown Event: Event not found.'', success = True\<rparr>"
proof -
  have "first_event 0 tes = None"
    using assms(5) by (simp add: first_event_None)
  with assms(1-4) show ?thesis
    by (simp add: solve_result_def solve_def gather_info_def TERMINATION_MESSAGES_simps)
qed

theorem solve_event_not_found_witness:
  "ode_success rtn_no_station \<and> ode_status rtn_no_station = 1 \<and>
   ode_t_events rtn_no_station = Some [[], []] \<and>
   solve_result (returning rtn_no_station) decay new_IBLBase (0, 1) (A1 [1]) (1 / 10 ^ 8) (1 / 10 ^ 11)
     (TermEventList [ev_late, ev_early]) =
   Inr \<lparr>x_end = 0, F_end = NdArray (A1 [1]), status = - 99,
        message = Some ''Unknown Event: Event not found.'', success = True\<rparr>"
  using solve_event_not_found [of "returning rtn_no_station" decay "(0, 1)" "A1 [1]" new_IBLBase
      "TermEventList [ev_late, ev_early]" "1 / 10 ^ 8" "1 / 10 ^ 11" rtn_no_station "[[], []]"]
  by (simp add: returning_def rtn_no_station_def initial_state_def)

text \<open>
  Claim C9. When the solver returns a failure, the end station of the result is the
  start of the station range and the end state is the initial state handed to the
  solver: the supplied vector, or the one-element list around a supplied scalar.
\<close>

theorem solve_failure_reports_start:
  assumes "solve_ivp ode_impl xrange (initial_state y0i) (kill_events_for self term_event) rtol atol
             = Inr rtn"
    and "\<not> ode_success rtn"
  shows "\<exists>res. solve_result solve_ivp ode_impl self xrange y0i rtol atol term_event = Inr res \<and>
           x_end res = fst xrange \<and>
           F_end res = (case y0i of A0 v \<Rightarrow> PyList [v] | A1 vs \<Rightarrow> NdArray y0i
                        | A2 rows \<Rightarrow> NdArray y0i)"
  using assms
  by (cases y0i) (simp_all add: solve_result_def solve_def gather_info_def initial_state_def)

theorem solve_failure_reports_start_witness:
  "\<not> ode_success rtn_failed \<and> ode_t rtn_failed = [0, 1 / 4] \<and>
   (\<exists>res. solve_result (returning rtn_failed) decay new_IBLBase (0, 1) (A1 [1, 2]) (1 / 10 ^ 8)
             (1 / 10 ^ 11) NoTermEvent = Inr res \<and>
          x_end res = 0 \<and> F_end res = NdArray (A1 [1, 2]))"
  using solve_failure_reports_start [of "returning rtn_failed" decay "(0, 1)" "A1 [1, 2]" new_IBLBase
      NoTermEvent "1 / 10 ^ 8" "1 / 10 ^ 11" rtn_failed]
  by (simp add: returning_def rtn_failed_def)

text \<open>
  Claim C10, as the code has it. A scalar initial state \<open>v\<close> is wrapped into the
  one-element Python list \<^verbatim>\<open>[v]\<close>, and that list is what the solver is called with and
  what the result is gathered from. With a solver that treats the list as the array it
  converts it to, \<^verbatim>\<open>solve\<close> on the scalar gives what \<^verbatim>\<open>solve\<close> on the one-element
  sequence gives once the end state is converted with \<^verbatim>\<open>np.asarray\<close>: the two results
  agree in every field but the container of an end state that is the initial state
  itself, the list \<^verbatim>\<open>[v]\<close> for the scalar and an array for the sequence.
\<close>

theorem solve_scalar_initial_state:
  assumes "solve_ivp ode_impl xrange (PyList [v]) (kill_events_for self term_event) rtol atol =
           solve_ivp ode_impl xrange (NdArray (A1 [v])) (kill_events_for self term_event) rtol atol"
  shows "initial_state (A0 v) = PyList [v] \<and>
         solve solve_ivp ode_impl self xrange (A0 v) rtol atol term_event =
           (case solve_ivp ode_impl xrange (PyList [v]) (kill_events_for self term_event) rtol atol of
              Inl e \<Rightarrow> Inl e
            | Inr rtn \<Rightarrow>
                map_sum id
                  (\<lambda>res. (self\<lparr>self_solution := (if ode_success rtn then Some (ode_sol rtn) else None)\<rparr>,
                          res))
                  (gather_info xrange (PyList [v]) (kill_events_for self term_event) rtn)) \<and>
         map_sum id (\<lambda>res. res\<lparr>F_end := NdArray (np_asarray (F_end res))\<rparr>)
           (solve_result solve_ivp ode_impl self xrange (A0 v) rtol atol term_event) =
         solve_result solve_ivp ode_impl self xrange (A1 [v]) rtol atol term_event \<and>
         map_sum id fst (solve solve_ivp ode_impl self xrange (A0 v) rtol atol term_event) =
         map_sum id fst (solve solve_ivp ode_impl self xrange (A1 [v]) rtol atol term_event)"
proof -
  have wrap: "initial_state (A0 v) = PyList [v]" "initial_state (A1 [v]) = NdArray (A1 [v])"
    by (simp_all add: initial_state_def)
  note gather = gather_info_scalar [of xrange v]
  show ?thesis
  proof (cases "solve_ivp ode_impl xrange (NdArray (A1 [v])) (kill_events_for self term_event) rtol atol")
    case (Inl e)
    with assms show ?thesis
      by (simp add: solve_result_def solve_def wrap)
  next
    case (Inr rtn)
    let ?kes = "kill_events_for self term_event"
    show ?thesis
    proof (cases "gather_info xrange (PyList [v]) ?kes rtn")
      case (Inl e)
      with gather [of ?kes rtn] have "gather_info xrange (NdArray (A1 [v])) ?kes rtn = Inl e"
        by simp
      with Inl Inr assms show ?thesis
        by (simp add: solve_result_def solve_def wrap)
    next
      case res: (Inr res)
      with gather [of ?kes rtn]
      have "gather_info xrange (NdArray (A1 [v])) ?kes rtn = Inr (res\<lparr>F_end := NdArray (np_asarray (F_end res))\<rparr>)"
        by simp
      with res Inr assms show ?thesis
        by (simp add: solve_result_def solve_def wrap)
    qed
  qed
qed

theorem solve_scalar_initial_state_witness:
  "initial_state (A0 1) = PyList [1] \<and>
   map_sum id (\<lambda>res. res\<lparr>F_end := NdArray (np_asarray (F_end res))\<rparr>)
     (solve_result (returning rtn_failed) decay new_IBLBase (0, 1) (A0 1) (1 / 10 ^ 8) (1 / 10 ^ 11)
        NoTermEvent) =
   solve_result (returning rtn_failed) decay new_IBLBase (0, 1) (A1 [1]) (1 / 10 ^ 8) (1 / 10 ^ 11)
     NoTermEvent"
  using solve_scalar_initial_state [of "returning rtn_failed" decay "(0, 1)" 1 new_IBLBase
      NoTermEvent "1 / 10 ^ 8" "1 / 10 ^ 11"]
  by (simp add: returning_def)

text \<open>
  The solver fails on both calls: for the scalar \<open>1\<close> the end state of the result is
  the Python list \<^verbatim>\<open>[1]\<close>, for the sequence \<^verbatim>\<open>[1]\<close> it is an array.
\<close>

theorem solve_scalar_end_state_is_list:
  "solve_result (returning rtn_failed) decay new_IBLBase (0, 1) (A0 1) (1 / 10 ^ 8) (1 / 10 ^ 11)
     NoTermEvent =
   Inr \<lparr>x_end = 0, F_end = PyList [1], status = - 99,
        message = Some ''Unknown Event: Required step size is less than spacing between numbers.'',
        success = False\<rparr> \<and>
   solve_result (returning rtn_failed) decay new_IBLBase (0, 1) (A1 [1]) (1 / 10 ^ 8) (1 / 10 ^ 11)
     NoTermEvent =
   Inr \<lparr>x_end = 0, F_end = NdArray (A1 [1]), status = - 99,
        message = Some ''Unknown Event: Required step size is less than spacing between numbers.'',
        success = False\<rparr>"
  by (simp add: solve_result_def solve_def gather_info_def returning_def rtn_failed_def
      kill_events_for_def new_IBLBase_def initial_state_def TERMINATION_MESSAGES_def)

section \<open>Velocity configuration\<close>

text \<open>
  Claim C7, as the code has it. A second derivative without a first derivative is
  rejected with a \<open>ValueError\<close> when \<^verbatim>\<open>U_e\<close> is absent (constructor) or callable
  (constructor and \<^verbatim>\<open>set_velocity\<close>). When \<^verbatim>\<open>U_e\<close> is a sequence (the pair of point
  arrays), the derivative arguments are not looked at: the outcome is the one without
  them.
\<close>

theorem second_derivative_without_first:
  "IBLBase_init CubicSpline fd None None (Some d2) =
     Inl (ValueError ''Must specify U_e if specifying d2U_edx2'') \<and>
   IBLBase_init CubicSpline fd (Some (Callable f)) None (Some d2) =
     Inl (ValueError ''Can only pass second derivative if first derivative was specified'') \<and>
   set_velocity CubicSpline fd self (Callable f) None (Some d2) =
     Inl (ValueError ''Can only pass second derivative if first derivative was specified'') \<and>
   IBLBase_init CubicSpline fd (Some (Sequence s)) dU_edx d2U_edx2 =
     IBLBase_init CubicSpline fd (Some (Sequence s)) None None \<and>
   set_velocity CubicSpline fd self (Sequence s) dU_edx d2U_edx2 =
     set_velocity CubicSpline fd self (Sequence s) None None"
  by (simp add: IBLBase_init_def set_velocity_def set_velocity_callable_def)

text \<open>
  Two points \<open>(0, 1)\<close> and \<open>(1, 2)\<close> with a second derivative and no first derivative:
  neither \<^verbatim>\<open>set_velocity\<close> nor the constructor raises, once the spline constructor
  accepts the points.
\<close>

theorem second_derivative_ignored_for_points:
  "\<not> isl (set_velocity accepting_spline zero_fd new_IBLBase (Sequence [A1 [0, 1], A1 [1, 2]]) None
            (Some (Callable one_plus_x))) \<and>
   \<not> isl (IBLBase_init accepting_spline zero_fd (Some (Sequence [A1 [0, 1], A1 [1, 2]])) None
            (Some (Callable one_plus_x)))"
  by (simp add: IBLBase_init_def set_velocity_def set_velocity_pair_def set_velocity_callable_def
      accepting_spline_def)

text \<open>
  Claim C8, at the inputs it names. A plain number has no length: \<^verbatim>\<open>len(U_e)\<close> raises
  \<open>TypeError\<close>, which is not a \<open>ValueError\<close>, before the branch that rejects an
  unrecognised velocity is reached. A 3-element sequence reaches that branch and gets
  its \<open>ValueError\<close>.
\<close>

theorem set_velocity_unsized_TypeError:
  "set_velocity CubicSpline fd self (Number v) dU_edx d2U_edx2 = Inl TypeError \<and>
   \<not> is_ValueError (set_velocity CubicSpline fd self (Number v) dU_edx d2U_edx2) \<and>
   set_velocity CubicSpline fd self (Sequence [a, b, c]) dU_edx d2U_edx2 =
     Inl (ValueError ''Don't know how to use {} to initialize velocity'')"
  by (simp add: set_velocity_def)

section \<open>Dense output\<close>

text \<open>
  Claim C3, as the code has it. With contiguous segments (\<^verbatim>\<open>x_vec\<close> sorted, one more
  entry than there are segments), \<^verbatim>\<open>y\<close> raises nothing for stations outside the solved
  range: each such station gets a row of zeros, one per state component.
\<close>

theorem y_outside_range_zero_rows:
  assumes "length (x_vec st) = Suc (length (dense_output_vec st))"
    and "sorted (x_vec st)"
    and "\<forall>x\<in>set xs. x < hd (x_vec st) \<or> last (x_vec st) < x"
  shows "y st xs = Inr (map (\<lambda>x. replicate (length (ode_y st)) 0) xs)"
proof -
  have "y_row st x = Inr (replicate (length (ode_y st)) 0)" if "x \<in> set xs" for x
  proof -
    from that assms(3) have out: "x < hd (x_vec st) \<or> last (x_vec st) < x" by blast
    have "segment_of (x_vec st) x 0 (dense_output_vec st) = Inr None"
    proof (rule segment_of_none)
      show "0 + length (dense_output_vec st) < length (x_vec st)"
        using assms(1) by simp
    next
      fix k assume "0 \<le> k" "k < 0 + length (dense_output_vec st)"
      then have "Suc k < length (x_vec st)" using assms(1) by simp
      with assms(2) show "\<not> (x_vec st ! k \<le> x \<and> x \<le> x_vec st ! Suc k)"
        using out by (rule outside_sorted_range)
    qed
    then show ?thesis by (simp add: y_row_def)
  qed
  then show ?thesis
    unfolding y_def by (rule collect_map)
qed

theorem y_outside_range_zero_rows_witness:
  "sorted (x_vec dense01) \<and> (2::real) > last (x_vec dense01) \<and> (- 1 :: real) < hd (x_vec dense01) \<and>
   y dense01 [2, - 1] = Inr [[0], [0]]"
  using y_outside_range_zero_rows [of dense01 "[2, - 1]"]
  by (simp add: dense01_def)

text \<open>
  One segment on \<open>[0, 1]\<close>: the query at \<open>1/2\<close> returns the state, the query at \<open>2\<close>,
  outside the solved range, returns a zero and no error.
\<close>

theorem y_out_of_range_returns_zeros:
  "x_vec dense01 = [0, 1] \<and> y dense01 [1 / 2] = Inr [[11 / 4]] \<and> y dense01 [2] = Inr [[0]]"
  by (simp add: y_def y_row_def dense01_def seg01_def assign_row_def)

text \<open>
  Claim C4, at the left endpoint. For a station at local offset zero of the segment that
  the search finds (rows of \<^verbatim>\<open>Q\<close> of length \<^verbatim>\<open>order + 1\<close>, one per state component),
  \<^verbatim>\<open>yp\<close> divides zero by zero and returns a row of non-finite values, not the
  derivative of the segment's polynomial.
\<close>

theorem yp_zero_offset_not_finite:
  assumes "segment_of (x_vec st) x 0 (dense_output_vec st) = Inr (Some (j, seg))"
    and "x = t_old seg"
    and "\<forall>row\<in>set (Q seg). length row = order seg + 1"
    and "length (Q seg) = length (ode_y st)"
  shows "yp st [x] = Inr [replicate (length (ode_y st)) None]"
  using yp_row_zero_offset [of st x j seg] assms
  by (simp add: yp_def)

theorem yp_zero_offset_not_finite_witness:
  "segment_of (x_vec dense01) 0 0 (dense_output_vec dense01) = Inr (Some (0, seg01)) \<and>
   t_old seg01 = 0 \<and> yp dense01 [0] = Inr [[None]]"
  using yp_zero_offset_not_finite [of dense01 0 0 seg01]
  by (simp add: dense01_def seg01_def)

text \<open>Inside the segment the derivative \<open>2 + 6 t\<close> is returned: \<open>5\<close> at \<open>1/2\<close>, \<open>8\<close> at
  the right endpoint.\<close>

lemma yp_inside_segment:
  "yp dense01 [1 / 2, 1] = Inr [[Some 5], [Some 8]]"
  by (simp add: yp_def yp_row_def dense01_def seg01_def assign_row_def np_div_def np_mul_def
      np_add_def cumprod_def arange1_def weighted_row_def np_dot_def)

end
